theory Spec2Isabelle
  imports Main "HOL-Library.Word"
begin

section \<open>The Telnet pseudoterminal of \<^verbatim>\<open>src/index.ts\<close>\<close>

text \<open>
  The class \<^verbatim>\<open>TelnetPseudoterminal\<close> keeps three private fields that matter for the
  protocol: \<^verbatim>\<open>_dimensions\<close>, \<^verbatim>\<open>_socket\<close> and \<^verbatim>\<open>_serverNawsOk\<close>. Its methods
  mutate these fields and call the writer methods of the \<^verbatim>\<open>TelnetSocket\<close>. The embedding
  passes the object explicitly: every method is a function that takes the object and
  returns the object as the method leaves it, together with the exception it threw, if
  any (the type \<open>handler\<close>). A JavaScript
  exception does not undo the assignments made before it, so the object is returned on
  both exits. The embedding covers the negotiation, the window size and the input path;
  \<^verbatim>\<open>close\<close> and \<^verbatim>\<open>handleData\<close>, which answer no Telnet command, are left out.
\<close>

subsection \<open>Constants\<close>

definition ECHO :: nat where "ECHO = 1"
definition SUPPRESS_GO_AHEAD :: nat where "SUPPRESS_GO_AHEAD = 3"
definition TERMINAL_TYPE :: nat where "TERMINAL_TYPE = 24"
definition NAWS :: nat where "NAWS = 31"
definition NEW_ENVIRON :: nat where "NEW_ENVIRON = 39"

definition IS :: nat where "IS = 0"
definition SEND :: nat where "SEND = 1"

subsection \<open>Data\<close>

type_synonym byte = "8 word"

text \<open>
  A JavaScript string is kept as the list of the bytes of its UTF-8 form, which is what
  \<^verbatim>\<open>Buffer.from(string)\<close> and the socket's \<^verbatim>\<open>write\<close> produce from it. The numbers of
  \<^verbatim>\<open>vscode.TerminalDimensions\<close> are counts of character cells: integers.
\<close>

record TerminalDimensions =
  columns :: int
  rows :: int

text \<open>
  The \<^verbatim>\<open>TelnetSocket\<close> is seen through the calls the class makes on it, in the order
  they are made.
\<close>

datatype socket_call =
    WriteDo nat
  | WriteDont nat
  | WriteWill nat
  | WriteWont nat
  | WriteSub nat "byte list"
  | Write string

datatype error =
    TerminalNotReady  \<comment> \<open>\<^verbatim>\<open>Error('Terminal not ready')\<close>\<close>
  | RangeError        \<comment> \<open>thrown by \<^verbatim>\<open>Buffer.writeInt16BE\<close>\<close>

record pty =
  p_dimensions :: "TerminalDimensions option"  \<comment> \<open>\<^verbatim>\<open>_dimensions\<close>\<close>
  p_socket :: "socket_call list option"        \<comment> \<open>\<^verbatim>\<open>_socket\<close>, with the calls it has received\<close>
  p_serverNawsOk :: bool                       \<comment> \<open>\<^verbatim>\<open>_serverNawsOk\<close>\<close>

type_synonym handler = "pty \<Rightarrow> error option \<times> pty"

text \<open>Statement sequencing: the second statement runs only if the first did not throw.\<close>

definition seq :: "handler \<Rightarrow> handler \<Rightarrow> handler" where
  "seq f g s = (case f s of (None, s') \<Rightarrow> g s' | (Some e, s') \<Rightarrow> (Some e, s'))"

subsection \<open>Getters and the socket's writers\<close>

definition dimensions :: "pty \<Rightarrow> TerminalDimensions option" where
  "dimensions s = p_dimensions s"

definition socket :: "pty \<Rightarrow> error + socket_call list" where
  "socket s = (case p_socket s of None \<Rightarrow> Inl TerminalNotReady | Some sock \<Rightarrow> Inr sock)"

definition serverNawsOk :: "pty \<Rightarrow> bool" where
  "serverNawsOk s = p_serverNawsOk s"

text \<open>\<^verbatim>\<open>this.socket.m(...)\<close>: the getter runs first and may throw; otherwise the call is made.\<close>

definition socket_do :: "socket_call \<Rightarrow> handler" where
  "socket_do c s =
     (case socket s of
        Inl e \<Rightarrow> (Some e, s)
      | Inr sock \<Rightarrow> (None, s\<lparr>p_socket := Some (sock @ [c])\<rparr>))"

subsection \<open>Node's \<^verbatim>\<open>Buffer\<close>\<close>

text \<open>
  \<^verbatim>\<open>buf.writeInt16BE(value, offset)\<close> throws a \<^verbatim>\<open>RangeError\<close> when the value is outside
  the signed 16-bit range or the two bytes do not fit at the offset; otherwise it stores
  the two's complement of the value, high byte first.
\<close>

definition writeInt16BE :: "byte list \<Rightarrow> int \<Rightarrow> nat \<Rightarrow> error + byte list" where
  "writeInt16BE buf v off =
     (if v < - 32768 \<or> 32767 < v \<or> length buf < off + 2 then Inl RangeError
      else Inr (buf[off := word_of_int (v div 256), off + 1 := word_of_int v]))"

definition Buffer_alloc :: "nat \<Rightarrow> byte list" where
  "Buffer_alloc n = replicate n 0"

text \<open>The arguments of the private \<^verbatim>\<open>writeSub\<close>: numbers, strings and buffers.\<close>

datatype sub_data = Number nat | String string | Buf "byte list"

fun Buffer_from :: "sub_data \<Rightarrow> byte list" where
  "Buffer_from (Number d) = [of_nat d]"
| "Buffer_from (String d) = map of_char d"
| "Buffer_from (Buf d) = d"

subsection \<open>The methods\<close>

definition constructor :: pty where
  "constructor = \<lparr>p_dimensions = None, p_socket = None, p_serverNawsOk = False\<rparr>"

definition sendWindowSize :: handler where
  "sendWindowSize s =
     (if \<not> serverNawsOk s then (None, s)
      else case dimensions s of
        None \<Rightarrow> (None, s)
      | Some d \<Rightarrow>
          (case writeInt16BE (Buffer_alloc 4) (columns d) 0 of
             Inl e \<Rightarrow> (Some e, s)
           | Inr b1 \<Rightarrow>
               (case writeInt16BE b1 (rows d) 2 of
                  Inl e \<Rightarrow> (Some e, s)
                | Inr b2 \<Rightarrow> socket_do (WriteSub NAWS b2) s)))"

definition set_dimensions :: "TerminalDimensions option \<Rightarrow> handler" where
  "set_dimensions v s = sendWindowSize (s\<lparr>p_dimensions := v\<rparr>)"

definition set_serverNawsOk :: "bool \<Rightarrow> handler" where
  "set_serverNawsOk v s =
     (if v = serverNawsOk s then (None, s)
      else if v then seq (socket_do (WriteWill NAWS)) sendWindowSize (s\<lparr>p_serverNawsOk := v\<rparr>)
      else socket_do (WriteWont NAWS) (s\<lparr>p_serverNawsOk := v\<rparr>))"

text \<open>
  \<^verbatim>\<open>open\<close> stores the initial dimensions without going through the setter, creates the
  socket, registers the handlers and makes its four offers.
\<close>

definition open_pty :: "TerminalDimensions option \<Rightarrow> handler" where
  "open_pty initialDimensions s =
     seq (socket_do (WriteDo ECHO))
       (seq (socket_do (WriteDo SUPPRESS_GO_AHEAD))
         (seq (socket_do (WriteWill SUPPRESS_GO_AHEAD))
           (socket_do (WriteWill NAWS))))
       (s\<lparr>p_dimensions := initialDimensions, p_socket := Some []\<rparr>)"

definition translateInput :: "string \<Rightarrow> string" where
  "translateInput data = (if data = [CHR 0x0D] then [CHR 0x0D, CHR 0x0A] else data)"

text \<open>
  \<^verbatim>\<open>this.socket?.write(...)\<close>: the getter either throws or returns the socket, so the
  optional call is always made when the getter returns.
\<close>

definition handleInput :: "string \<Rightarrow> handler" where
  "handleInput data = socket_do (Write (translateInput data))"

definition setDimensions :: "TerminalDimensions \<Rightarrow> handler" where
  "setDimensions d = set_dimensions (Some d)"

definition handleDo :: "nat \<Rightarrow> handler" where
  "handleDo option =
     (if option = NAWS then set_serverNawsOk True
      else if option = TERMINAL_TYPE \<or> option = NEW_ENVIRON then socket_do (WriteWill option)
      else socket_do (WriteWont option))"

definition handleDont :: "nat \<Rightarrow> handler" where
  "handleDont option =
     (if option = NAWS then set_serverNawsOk False
      else socket_do (WriteWont option))"

definition handleWill :: "nat \<Rightarrow> handler" where
  "handleWill option =
     (if option = ECHO \<or> option = SUPPRESS_GO_AHEAD then socket_do (WriteDo option)
      else socket_do (WriteDont option))"

definition handleWont :: "nat \<Rightarrow> handler" where
  "handleWont option =
     (if option = ECHO then socket_do (WriteDo option)
      else socket_do (WriteDont option))"

definition writeSub :: "nat \<Rightarrow> sub_data list \<Rightarrow> handler" where
  "writeSub option data = socket_do (WriteSub option (concat (map Buffer_from data)))"

definition sendEnvironment :: handler where
  "sendEnvironment = writeSub NEW_ENVIRON [Number IS]"

definition sendTerminalType :: handler where
  "sendTerminalType = writeSub TERMINAL_TYPE [Number IS, String ''XTERM'']"

text \<open>
  \<^verbatim>\<open>buffer[0] === SEND\<close>: reading an empty buffer at index 0 gives \<^verbatim>\<open>undefined\<close>, which
  is not equal to \<^verbatim>\<open>SEND\<close>.
\<close>

definition first_is :: "byte list \<Rightarrow> nat \<Rightarrow> bool" where
  "first_is buffer n = (case buffer of [] \<Rightarrow> False | b # _ \<Rightarrow> unat b = n)"

definition handleSubnegotiation :: "nat \<Rightarrow> byte list \<Rightarrow> handler" where
  "handleSubnegotiation option buffer s =
     (if option = TERMINAL_TYPE then
        (if first_is buffer SEND then sendTerminalType s else (None, s))
      else if option = NEW_ENVIRON then
        (if first_is buffer SEND then sendEnvironment s else (None, s))
      else (None, s))"

subsection \<open>Events from the peer\<close>

text \<open>
  The handlers \<^verbatim>\<open>open\<close> registers on the socket: a negotiation command received from
  the peer runs the handler of its kind with the option code.
\<close>

datatype command = DO | DONT | WILL | WONT

fun receive :: "command \<Rightarrow> nat \<Rightarrow> handler" where
  "receive DO option = handleDo option"
| "receive DONT option = handleDont option"
| "receive WILL option = handleWill option"
| "receive WONT option = handleWont option"

fun is_negotiation :: "socket_call \<Rightarrow> bool" where
  "is_negotiation (WriteDo _) = True"
| "is_negotiation (WriteDont _) = True"
| "is_negotiation (WriteWill _) = True"
| "is_negotiation (WriteWont _) = True"
| "is_negotiation (WriteSub _ _) = False"
| "is_negotiation (Write _) = False"

subsection \<open>The bytes on the wire\<close>

text \<open>
  Modelled from the spec: the writer methods of \<^verbatim>\<open>TelnetSocket\<close> belong to the
  \<^verbatim>\<open>telnet-stream\<close> package, which is not among the sources. The wire format is that
  of the specification's interface section: IAC=255, DO=253, DONT=254, WILL=251,
  WONT=252, SB=250, SE=240; a negotiation command is IAC, the command byte and the
  option code; a subnegotiation is IAC SB, the option code, the payload and IAC SE;
  every 255 inside data or a payload is doubled.
\<close>

definition IAC :: byte where "IAC = 255"

fun escape_iac :: "byte list \<Rightarrow> byte list" where
  "escape_iac [] = []"
| "escape_iac (b # bs) = (if b = IAC then [IAC, IAC] else [b]) @ escape_iac bs"

fun wire_call :: "socket_call \<Rightarrow> byte list" where
  "wire_call (WriteDo option) = [IAC, 253, of_nat option]"
| "wire_call (WriteDont option) = [IAC, 254, of_nat option]"
| "wire_call (WriteWill option) = [IAC, 251, of_nat option]"
| "wire_call (WriteWont option) = [IAC, 252, of_nat option]"
| "wire_call (WriteSub option payload) = [IAC, 250, of_nat option] @ escape_iac payload @ [IAC, 240]"
| "wire_call (Write data) = escape_iac (map of_char data)"

definition wire :: "socket_call list \<Rightarrow> byte list" where
  "wire cs = concat (map wire_call cs)"

subsection \<open>The NAWS payload, as the specification words it\<close>

text \<open>
  The specification describes the payload as the columns and the rows, each one a
  big-endian 16-bit field whose value fits the signed 16-bit range. These definitions
  follow those words; \<open>sendWindowSize_eq\<close> below compares them with what
  \<open>sendWindowSize\<close> computes through \<open>writeInt16BE\<close>.
\<close>

definition fits_int16 :: "int \<Rightarrow> bool" where
  "fits_int16 v = (- 32768 \<le> v \<and> v \<le> 32767)"

definition int16BE :: "int \<Rightarrow> byte list" where
  "int16BE v = [word_of_int (v div 256), word_of_int v]"

definition naws_payload :: "TerminalDimensions \<Rightarrow> byte list" where
  "naws_payload d = int16BE (columns d) @ int16BE (rows d)"

text \<open>Reading a big-endian field back as a signed number.\<close>

definition signed16 :: "byte \<Rightarrow> byte \<Rightarrow> int" where
  "signed16 hi lo = (let u = uint hi * 256 + uint lo in if u < 32768 then u else u - 65536)"

subsection \<open>Two states used in the examples\<close>

text \<open>
  \<open>opened\<close> is the terminal right after \<^verbatim>\<open>open({columns: 80, rows: 24})\<close>; \<open>accepted\<close>
  is the same terminal after the peer's \<^verbatim>\<open>DO NAWS\<close>.
\<close>

definition opened :: pty where
  "opened = snd (open_pty (Some \<lparr>columns = 80, rows = 24\<rparr>) constructor)"

definition accepted :: pty where
  "accepted = snd (handleDo NAWS opened)"

section \<open>Basic facts\<close>

lemmas option_codes = ECHO_def SUPPRESS_GO_AHEAD_def TERMINAL_TYPE_def NAWS_def NEW_ENVIRON_def

lemma socket_do_open:
  "p_socket s = Some sock \<Longrightarrow> socket_do c s = (None, s\<lparr>p_socket := Some (sock @ [c])\<rparr>)"
  by (simp add: socket_do_def socket_def)

lemma socket_do_closed:
  "p_socket s = None \<Longrightarrow> socket_do c s = (Some TerminalNotReady, s)"
  by (simp add: socket_do_def socket_def)

subsection \<open>The encoder\<close>

lemma high_byte_negative:
  assumes "- 128 \<le> (x::int)" and "x < 0"
  shows "x mod 256 = x + 256"
proof -
  have "(x + 256) mod 256 = x + 256"
    using assms by (intro mod_pos_pos_trivial) simp_all
  moreover have "(x + 256) mod 256 = x mod 256"
    by simp
  ultimately show ?thesis by simp
qed

text \<open>The two bytes determine the number: the field is its two's complement.\<close>

lemma signed16_int16BE:
  assumes fit: "fits_int16 v"
  shows "signed16 (word_of_int (v div 256)) (word_of_int v) = v"
proof -
  have hi: "uint (word_of_int (v div 256) :: byte) = (v div 256) mod 256"
    by (simp add: uint_word_of_int)
  have lo: "uint (word_of_int v :: byte) = v mod 256"
    by (simp add: uint_word_of_int)
  have split: "v div 256 * 256 + v mod 256 = v"
    by simp
  have u: "(v div 256) mod 256 * 256 + v mod 256 = (if v < 0 then v + 65536 else v)"
  proof (cases "v < 0")
    case True
    then have "- 128 \<le> v div 256 \<and> v div 256 < 0"
      using fit unfolding fits_int16_def
      by (simp add: pos_imp_zdiv_neg_iff zdiv_mono1 [of "-32768" v 256, simplified])
    then have "(v div 256) mod 256 = v div 256 + 256"
      by (simp add: high_byte_negative)
    then show ?thesis using True split by simp
  next
    case False
    then have "0 \<le> v div 256 \<and> v div 256 < 256"
      using fit unfolding fits_int16_def
      by (simp add: pos_imp_zdiv_nonneg_iff
          order.strict_trans1 [OF zdiv_mono1 [of v 32767 256, simplified]])
    then have "(v div 256) mod 256 = v div 256"
      by simp
    then show ?thesis using False split by simp
  qed
  show ?thesis
    using fit unfolding fits_int16_def
    by (simp add: signed16_def hi lo u Let_def)
qed

lemma Buffer_alloc_4: "Buffer_alloc 4 = [0, 0, 0, 0]"
  by (simp add: Buffer_alloc_def numeral_eq_Suc)

lemma writeInt16BE_columns:
  "writeInt16BE (Buffer_alloc 4) c 0 =
     (if fits_int16 c then Inr (int16BE c @ [0, 0]) else Inl RangeError)"
  by (auto simp: writeInt16BE_def Buffer_alloc_4 fits_int16_def int16BE_def)

lemma writeInt16BE_rows:
  "writeInt16BE (int16BE c @ [0, 0]) r 2 =
     (if fits_int16 r then Inr (int16BE c @ int16BE r) else Inl RangeError)"
  by (auto simp: writeInt16BE_def fits_int16_def int16BE_def numeral_eq_Suc)

text \<open>
  What \<open>sendWindowSize\<close> does, in the specification's terms: nothing unless NAWS is
  accepted and a size is known; a \<^verbatim>\<open>RangeError\<close> when a field does not fit; the
  subnegotiation otherwise.
\<close>

lemma sendWindowSize_eq:
  "sendWindowSize s =
     (if \<not> p_serverNawsOk s then (None, s)
      else case p_dimensions s of
        None \<Rightarrow> (None, s)
      | Some d \<Rightarrow>
          if fits_int16 (columns d) \<and> fits_int16 (rows d)
          then socket_do (WriteSub NAWS (naws_payload d)) s
          else (Some RangeError, s))"
  by (simp add: sendWindowSize_def serverNawsOk_def dimensions_def writeInt16BE_columns
      writeInt16BE_rows naws_payload_def split: option.splits)

subsection \<open>The example states\<close>

lemma opened_eq:
  "opened = \<lparr>p_dimensions = Some \<lparr>columns = 80, rows = 24\<rparr>,
     p_socket = Some [WriteDo ECHO, WriteDo SUPPRESS_GO_AHEAD, WriteWill SUPPRESS_GO_AHEAD,
       WriteWill NAWS],
     p_serverNawsOk = False\<rparr>"
  by (simp add: opened_def open_pty_def constructor_def seq_def socket_do_def socket_def)

lemma p_socket_opened:
  "p_socket opened = Some [WriteDo ECHO, WriteDo SUPPRESS_GO_AHEAD, WriteWill SUPPRESS_GO_AHEAD,
     WriteWill NAWS]"
  by (simp add: opened_eq)

subsection \<open>The NAWS paths\<close>

text \<open>
  The three methods that reach \<open>sendWindowSize\<close>, each written out as one case
  distinction over the fields. An exception leaves the fields as they were assigned
  before it: the flag is set before \<^verbatim>\<open>WILL NAWS\<close> is written, and the dimensions are
  stored before the payload is encoded.
\<close>

lemma handleDo_NAWS_eq:
  "handleDo NAWS s =
     (if p_serverNawsOk s then (None, s)
      else case p_socket s of
        None \<Rightarrow> (Some TerminalNotReady, s\<lparr>p_serverNawsOk := True\<rparr>)
      | Some sock \<Rightarrow>
          (case p_dimensions s of
             None \<Rightarrow>
               (None, s\<lparr>p_serverNawsOk := True, p_socket := Some (sock @ [WriteWill NAWS])\<rparr>)
           | Some d \<Rightarrow>
               if fits_int16 (columns d) \<and> fits_int16 (rows d)
               then (None, s\<lparr>p_serverNawsOk := True,
                       p_socket := Some (sock @ [WriteWill NAWS, WriteSub NAWS (naws_payload d)])\<rparr>)
               else (Some RangeError,
                     s\<lparr>p_serverNawsOk := True, p_socket := Some (sock @ [WriteWill NAWS])\<rparr>)))"
  by (simp add: handleDo_def set_serverNawsOk_def serverNawsOk_def seq_def sendWindowSize_eq
      socket_do_def socket_def split: option.splits)

lemma handleDont_NAWS_eq:
  "handleDont NAWS s =
     (if \<not> p_serverNawsOk s then (None, s)
      else case p_socket s of
        None \<Rightarrow> (Some TerminalNotReady, s\<lparr>p_serverNawsOk := False\<rparr>)
      | Some sock \<Rightarrow>
          (None, s\<lparr>p_serverNawsOk := False, p_socket := Some (sock @ [WriteWont NAWS])\<rparr>))"
  by (simp add: handleDont_def set_serverNawsOk_def serverNawsOk_def socket_do_def socket_def
      split: option.splits)

lemma setDimensions_eq:
  "setDimensions d s =
     (if \<not> p_serverNawsOk s then (None, s\<lparr>p_dimensions := Some d\<rparr>)
      else if \<not> (fits_int16 (columns d) \<and> fits_int16 (rows d))
        then (Some RangeError, s\<lparr>p_dimensions := Some d\<rparr>)
      else case p_socket s of
        None \<Rightarrow> (Some TerminalNotReady, s\<lparr>p_dimensions := Some d\<rparr>)
      | Some sock \<Rightarrow>
          (None, s\<lparr>p_dimensions := Some d,
                   p_socket := Some (sock @ [WriteSub NAWS (naws_payload d)])\<rparr>))"
  by (simp add: setDimensions_def set_dimensions_def sendWindowSize_eq socket_do_def socket_def
      split: option.splits)

lemma naws_payload_80_24: "naws_payload \<lparr>columns = 80, rows = 24\<rparr> = [0, 80, 0, 24]"
  by (simp add: naws_payload_def int16BE_def)

lemma accepted_eq:
  "accepted = \<lparr>p_dimensions = Some \<lparr>columns = 80, rows = 24\<rparr>,
     p_socket = Some [WriteDo ECHO, WriteDo SUPPRESS_GO_AHEAD, WriteWill SUPPRESS_GO_AHEAD,
       WriteWill NAWS, WriteWill NAWS, WriteSub NAWS [0, 80, 0, 24]],
     p_serverNawsOk = True\<rparr>"
  by (simp add: accepted_def opened_eq handleDo_NAWS_eq fits_int16_def naws_payload_80_24)

lemma p_socket_accepted:
  "p_socket accepted = Some [WriteDo ECHO, WriteDo SUPPRESS_GO_AHEAD, WriteWill SUPPRESS_GO_AHEAD,
     WriteWill NAWS, WriteWill NAWS, WriteSub NAWS [0, 80, 0, 24]]"
  by (simp add: accepted_eq)

section \<open>The claims\<close>

subsection \<open>Replies to negotiation commands\<close>

text \<open>
  Claim C1. On an open connection every received negotiation command is answered with
  exactly one negotiation command, with one exception that the setter of
  \<^verbatim>\<open>serverNawsOk\<close> makes: a \<^verbatim>\<open>DO NAWS\<close> while NAWS is already accepted and a
  \<^verbatim>\<open>DONT NAWS\<close> while NAWS is not accepted return before anything is written and leave
  the terminal as it was. A \<^verbatim>\<open>DO NAWS\<close> that newly accepts NAWS is answered with
  \<^verbatim>\<open>WILL NAWS\<close> (what follows it in the same step is no negotiation command), and a
  \<^verbatim>\<open>DONT NAWS\<close> that withdraws it with \<^verbatim>\<open>WONT NAWS\<close>.
\<close>

theorem one_reply_per_command:
  assumes "p_socket s = Some sock"
  shows "(if option = NAWS \<and> (cmd = DO \<and> p_serverNawsOk s \<or> cmd = DONT \<and> \<not> p_serverNawsOk s)
          then receive cmd option s = (None, s)
          else \<exists>out. p_socket (snd (receive cmd option s)) = Some (sock @ out)
                 \<and> length (filter is_negotiation out) = 1)
    \<and> (\<not> p_serverNawsOk s \<longrightarrow>
          (\<exists>rest. p_socket (snd (receive DO NAWS s)) = Some (sock @ WriteWill NAWS # rest)
             \<and> filter is_negotiation rest = []))
    \<and> (p_serverNawsOk s \<longrightarrow>
          receive DONT NAWS s =
            (None, s\<lparr>p_serverNawsOk := False, p_socket := Some (sock @ [WriteWont NAWS])\<rparr>))"
proof (intro conjI impI)
  show "if option = NAWS \<and> (cmd = DO \<and> p_serverNawsOk s \<or> cmd = DONT \<and> \<not> p_serverNawsOk s)
          then receive cmd option s = (None, s)
          else \<exists>out. p_socket (snd (receive cmd option s)) = Some (sock @ out)
                 \<and> length (filter is_negotiation out) = 1"
  proof (cases cmd)
    case DO
    show ?thesis
    proof (cases "option = NAWS")
      case True
      then show ?thesis using DO assms
        by (simp add: handleDo_NAWS_eq split: option.splits)
    next
      case False
      then show ?thesis using DO assms
        by (simp add: handleDo_def socket_do_open)
    qed
  next
    case DONT
    show ?thesis
    proof (cases "option = NAWS")
      case True
      then show ?thesis using DONT assms
        by (simp add: handleDont_NAWS_eq)
    next
      case False
      then show ?thesis using DONT assms
        by (simp add: handleDont_def socket_do_open)
    qed
  next
    case WILL
    then show ?thesis using assms
      by (simp add: handleWill_def socket_do_open option_codes)
  next
    case WONT
    then show ?thesis using assms
      by (simp add: handleWont_def socket_do_open option_codes)
  qed
next
  assume "\<not> p_serverNawsOk s"
  then show "\<exists>rest. p_socket (snd (receive DO NAWS s)) = Some (sock @ WriteWill NAWS # rest)
             \<and> filter is_negotiation rest = []"
    using assms by (simp add: handleDo_NAWS_eq split: option.splits)
next
  assume "p_serverNawsOk s"
  then show "receive DONT NAWS s =
            (None, s\<lparr>p_serverNawsOk := False, p_socket := Some (sock @ [WriteWont NAWS])\<rparr>)"
    using assms by (simp add: handleDont_NAWS_eq)
qed

text \<open>
  On the terminal that has accepted NAWS: a second \<^verbatim>\<open>DO NAWS\<close> changes nothing, and a
  \<^verbatim>\<open>DONT NAWS\<close> is acknowledged.
\<close>

theorem one_reply_per_command_witness:
  "receive DO NAWS accepted = (None, accepted)
   \<and> receive DONT NAWS accepted =
       (None, accepted\<lparr>p_serverNawsOk := False,
          p_socket := Some ([WriteDo ECHO, WriteDo SUPPRESS_GO_AHEAD, WriteWill SUPPRESS_GO_AHEAD,
            WriteWill NAWS, WriteWill NAWS, WriteSub NAWS [0, 80, 0, 24]] @ [WriteWont NAWS])\<rparr>)"
  using one_reply_per_command [OF p_socket_accepted, of NAWS DO]
  by (simp add: accepted_eq)

text \<open>
  The wording of claim C1 that a repeated \<^verbatim>\<open>DO NAWS\<close> is still answered with
  \<^verbatim>\<open>WILL NAWS\<close> and a repeated \<^verbatim>\<open>DONT NAWS\<close> with \<^verbatim>\<open>WONT NAWS\<close> fails. On the
  terminal just opened, the second of two \<^verbatim>\<open>DO NAWS\<close> writes nothing at all; so does
  the second of two \<^verbatim>\<open>DONT NAWS\<close> on the terminal that has accepted NAWS, and a first
  \<^verbatim>\<open>DONT NAWS\<close> on the terminal just opened, where NAWS was never accepted.
\<close>

theorem redundant_NAWS_request_unanswered:
  "receive DO NAWS (snd (receive DO NAWS opened)) = (None, snd (receive DO NAWS opened))
   \<and> receive DONT NAWS (snd (receive DONT NAWS accepted)) =
       (None, snd (receive DONT NAWS accepted))
   \<and> receive DONT NAWS opened = (None, opened)"
proof (intro conjI)
  have "p_serverNawsOk (snd (handleDo NAWS opened))"
    by (simp add: handleDo_NAWS_eq opened_eq fits_int16_def)
  then show "receive DO NAWS (snd (receive DO NAWS opened)) =
      (None, snd (receive DO NAWS opened))"
    by (simp add: handleDo_NAWS_eq [of "snd (handleDo NAWS opened)"])
next
  have "\<not> p_serverNawsOk (snd (handleDont NAWS accepted))"
    by (simp add: handleDont_NAWS_eq accepted_eq)
  then show "receive DONT NAWS (snd (receive DONT NAWS accepted)) =
      (None, snd (receive DONT NAWS accepted))"
    by (simp add: handleDont_NAWS_eq [of "snd (handleDont NAWS accepted)"])
next
  show "receive DONT NAWS opened = (None, opened)"
    by (simp add: handleDont_NAWS_eq opened_eq)
qed

text \<open>
  Claim C2. On the terminal just opened with the size 80 by 24, NAWS not yet accepted,
  a received \<^verbatim>\<open>DO NAWS\<close> makes the two calls \<^verbatim>\<open>writeWill(NAWS)\<close> and
  \<^verbatim>\<open>writeSub(NAWS, 00 50 00 18)\<close> in this order, which are the bytes IAC WILL NAWS, IAC
  SB NAWS 00 50 00 18 IAC SE on the wire. The same holds of every open terminal that has
  not accepted NAWS and knows a size that fits the wire fields; and in every step that
  handles \<^verbatim>\<open>DO NAWS\<close>, each NAWS subnegotiation written has the \<^verbatim>\<open>WILL NAWS\<close> of
  that step before it.
\<close>

theorem DO_NAWS_will_then_size:
  "handleDo NAWS opened =
     (None, opened\<lparr>p_serverNawsOk := True,
        p_socket := Some ([WriteDo ECHO, WriteDo SUPPRESS_GO_AHEAD, WriteWill SUPPRESS_GO_AHEAD,
          WriteWill NAWS] @ [WriteWill NAWS, WriteSub NAWS [0x00, 0x50, 0x00, 0x18]])\<rparr>)
   \<and> wire [WriteWill NAWS, WriteSub NAWS [0x00, 0x50, 0x00, 0x18]] =
       [255, 251, 31, 255, 250, 31, 0x00, 0x50, 0x00, 0x18, 255, 240]
   \<and> (p_socket s = Some sock \<and> \<not> p_serverNawsOk s \<and> p_dimensions s = Some d
        \<and> fits_int16 (columns d) \<and> fits_int16 (rows d) \<longrightarrow>
        handleDo NAWS s =
          (None, s\<lparr>p_serverNawsOk := True,
             p_socket := Some (sock @ [WriteWill NAWS, WriteSub NAWS (naws_payload d)])\<rparr>))
   \<and> (p_socket s = Some sock \<longrightarrow>
        (\<exists>out. p_socket (snd (handleDo NAWS s)) = Some (sock @ out)
           \<and> (\<forall>i < length out. (\<exists>b. out ! i = WriteSub NAWS b) \<longrightarrow>
                 (\<exists>j < i. out ! j = WriteWill NAWS))))"
proof (intro conjI impI)
  show "handleDo NAWS opened =
     (None, opened\<lparr>p_serverNawsOk := True,
        p_socket := Some ([WriteDo ECHO, WriteDo SUPPRESS_GO_AHEAD, WriteWill SUPPRESS_GO_AHEAD,
          WriteWill NAWS] @ [WriteWill NAWS, WriteSub NAWS [0x00, 0x50, 0x00, 0x18]])\<rparr>)"
    by (simp add: handleDo_NAWS_eq opened_eq fits_int16_def naws_payload_80_24)
next
  show "wire [WriteWill NAWS, WriteSub NAWS [0x00, 0x50, 0x00, 0x18]] =
       [255, 251, 31, 255, 250, 31, 0x00, 0x50, 0x00, 0x18, 255, 240]"
    by (simp add: wire_def IAC_def NAWS_def)
next
  assume "p_socket s = Some sock \<and> \<not> p_serverNawsOk s \<and> p_dimensions s = Some d
        \<and> fits_int16 (columns d) \<and> fits_int16 (rows d)"
  then show "handleDo NAWS s =
          (None, s\<lparr>p_serverNawsOk := True,
             p_socket := Some (sock @ [WriteWill NAWS, WriteSub NAWS (naws_payload d)])\<rparr>)"
    by (simp add: handleDo_NAWS_eq)
next
  assume op: "p_socket s = Some sock"
  let ?after = "p_socket (snd (handleDo NAWS s))"
  let ?ordered = "\<lambda>out. \<forall>i < length out. (\<exists>b. out ! i = WriteSub NAWS b) \<longrightarrow>
                 (\<exists>j < i. out ! j = WriteWill NAWS)"
  have "?after = Some (sock @ []) \<or> ?after = Some (sock @ [WriteWill NAWS])
      \<or> (\<exists>b. ?after = Some (sock @ [WriteWill NAWS, WriteSub NAWS b]))"
    using op by (simp add: handleDo_NAWS_eq split: option.splits)
  moreover have "?ordered []" by simp
  moreover have "?ordered [WriteWill NAWS]" by simp
  moreover have "?ordered [WriteWill NAWS, WriteSub NAWS b]" for b
    by (auto simp: less_Suc_eq)
  ultimately show "\<exists>out. ?after = Some (sock @ out) \<and> ?ordered out"
    by blast
qed

text \<open>
  A terminal of 132 columns and 43 rows whose socket has received no call yet.
\<close>

theorem DO_NAWS_will_then_size_witness:
  "handleDo NAWS \<lparr>p_dimensions = Some \<lparr>columns = 132, rows = 43\<rparr>, p_socket = Some [],
       p_serverNawsOk = False\<rparr> =
     (None, \<lparr>p_dimensions = Some \<lparr>columns = 132, rows = 43\<rparr>,
        p_socket = Some [WriteWill NAWS, WriteSub NAWS [0, 132, 0, 43]],
        p_serverNawsOk = True\<rparr>)"
  using DO_NAWS_will_then_size [of "\<lparr>p_dimensions = Some \<lparr>columns = 132, rows = 43\<rparr>,
      p_socket = Some [], p_serverNawsOk = False\<rparr>" "[]" "\<lparr>columns = 132, rows = 43\<rparr>"]
  by (simp add: fits_int16_def naws_payload_def int16BE_def)

subsection \<open>Unsupported options\<close>

text \<open>
  Claim C3. On an open connection, a \<^verbatim>\<open>DO\<close> for any option other than NAWS,
  TERMINAL-TYPE and NEW-ENVIRON is answered with exactly one \<^verbatim>\<open>WONT\<close> for that option,
  and a \<^verbatim>\<open>WILL\<close> for any option other than ECHO and SUPPRESS-GO-AHEAD with exactly one
  \<^verbatim>\<open>DONT\<close>; nothing else of the terminal changes, so no option becomes enabled. Whatever
  negotiation command is received, every \<^verbatim>\<open>WILL\<close> in the reply is for NAWS,
  TERMINAL-TYPE or NEW-ENVIRON and every \<^verbatim>\<open>DO\<close> is for ECHO or SUPPRESS-GO-AHEAD.
\<close>

theorem unsupported_options_refused:
  assumes "p_socket s = Some sock"
  shows "(option \<noteq> NAWS \<and> option \<noteq> TERMINAL_TYPE \<and> option \<noteq> NEW_ENVIRON \<longrightarrow>
            handleDo option s = (None, s\<lparr>p_socket := Some (sock @ [WriteWont option])\<rparr>))
    \<and> (option \<noteq> ECHO \<and> option \<noteq> SUPPRESS_GO_AHEAD \<longrightarrow>
            handleWill option s = (None, s\<lparr>p_socket := Some (sock @ [WriteDont option])\<rparr>))
    \<and> (\<exists>out. p_socket (snd (receive cmd opt s)) = Some (sock @ out)
          \<and> (\<forall>x. WriteWill x \<in> set out \<longrightarrow> x = NAWS \<or> x = TERMINAL_TYPE \<or> x = NEW_ENVIRON)
          \<and> (\<forall>x. WriteDo x \<in> set out \<longrightarrow> x = ECHO \<or> x = SUPPRESS_GO_AHEAD))"
proof (intro conjI impI)
  assume "option \<noteq> NAWS \<and> option \<noteq> TERMINAL_TYPE \<and> option \<noteq> NEW_ENVIRON"
  then show "handleDo option s = (None, s\<lparr>p_socket := Some (sock @ [WriteWont option])\<rparr>)"
    using assms by (simp add: handleDo_def socket_do_open)
next
  assume "option \<noteq> ECHO \<and> option \<noteq> SUPPRESS_GO_AHEAD"
  then show "handleWill option s = (None, s\<lparr>p_socket := Some (sock @ [WriteDont option])\<rparr>)"
    using assms by (simp add: handleWill_def socket_do_open)
next
  let ?ok = "\<lambda>out.
      (\<forall>x. WriteWill x \<in> set out \<longrightarrow> x = NAWS \<or> x = TERMINAL_TYPE \<or> x = NEW_ENVIRON)
    \<and> (\<forall>x. WriteDo x \<in> set out \<longrightarrow> x = ECHO \<or> x = SUPPRESS_GO_AHEAD)"
  show "\<exists>out. p_socket (snd (receive cmd opt s)) = Some (sock @ out) \<and> ?ok out"
  proof (cases cmd)
    case DO
    show ?thesis
    proof (cases "opt = NAWS")
      case True
      have "p_socket (snd (handleDo NAWS s)) = Some (sock @ [])
          \<or> p_socket (snd (handleDo NAWS s)) = Some (sock @ [WriteWill NAWS])
          \<or> (\<exists>b. p_socket (snd (handleDo NAWS s)) = Some (sock @ [WriteWill NAWS, WriteSub NAWS b]))"
        using assms by (simp add: handleDo_NAWS_eq split: option.splits)
      then show ?thesis using DO True by auto
    next
      case False
      then have "p_socket (snd (handleDo opt s)) = Some (sock @ [WriteWill opt])
            \<and> (opt = TERMINAL_TYPE \<or> opt = NEW_ENVIRON)
          \<or> p_socket (snd (handleDo opt s)) = Some (sock @ [WriteWont opt])"
        using assms by (simp add: handleDo_def socket_do_open)
      then show ?thesis using DO by auto
    qed
  next
    case DONT
    have "p_socket (snd (handleDont opt s)) = Some (sock @ [])
        \<or> p_socket (snd (handleDont opt s)) = Some (sock @ [WriteWont opt])"
    proof (cases "opt = NAWS")
      case True
      then show ?thesis using assms by (simp add: handleDont_NAWS_eq)
    next
      case False
      then show ?thesis using assms by (simp add: handleDont_def socket_do_open)
    qed
    then show ?thesis using DONT by auto
  next
    case WILL
    have "p_socket (snd (handleWill opt s)) = Some (sock @ [WriteDo opt])
          \<and> (opt = ECHO \<or> opt = SUPPRESS_GO_AHEAD)
        \<or> p_socket (snd (handleWill opt s)) = Some (sock @ [WriteDont opt])"
      using assms by (simp add: handleWill_def socket_do_open)
    then show ?thesis using WILL by auto
  next
    case WONT
    have "p_socket (snd (handleWont opt s)) = Some (sock @ [WriteDo opt]) \<and> opt = ECHO
        \<or> p_socket (snd (handleWont opt s)) = Some (sock @ [WriteDont opt])"
      using assms by (simp add: handleWont_def socket_do_open)
    then show ?thesis using WONT by auto
  qed
qed

text \<open>
  Option 5 is on neither list.
\<close>

theorem unsupported_options_refused_witness:
  "handleDo 5 opened =
     (None, opened\<lparr>p_socket := Some ([WriteDo ECHO, WriteDo SUPPRESS_GO_AHEAD,
        WriteWill SUPPRESS_GO_AHEAD, WriteWill NAWS] @ [WriteWont 5])\<rparr>)
   \<and> handleWill 5 opened =
     (None, opened\<lparr>p_socket := Some ([WriteDo ECHO, WriteDo SUPPRESS_GO_AHEAD,
        WriteWill SUPPRESS_GO_AHEAD, WriteWill NAWS] @ [WriteDont 5])\<rparr>)"
  using unsupported_options_refused [OF p_socket_opened, of 5 DO 5]
  by (simp add: option_codes)

text \<open>
  Claim C4. On an open connection \<^verbatim>\<open>WONT ECHO\<close> is answered with \<^verbatim>\<open>DO ECHO\<close>, and
  \<^verbatim>\<open>WONT\<close> for any other option with \<^verbatim>\<open>DONT\<close> for that option. The reply is the
  whole effect: the class has no field that records whether the remote has ECHO
  enabled, and its fields other than the socket are left as they were.
\<close>

theorem handleWont_replies:
  assumes "p_socket s = Some sock"
  shows "handleWont ECHO s = (None, s\<lparr>p_socket := Some (sock @ [WriteDo ECHO])\<rparr>)
    \<and> (option \<noteq> ECHO \<longrightarrow>
          handleWont option s = (None, s\<lparr>p_socket := Some (sock @ [WriteDont option])\<rparr>))"
  using assms by (simp add: handleWont_def socket_do_open)

text \<open>
  \<^verbatim>\<open>WONT ECHO\<close> and \<^verbatim>\<open>WONT SUPPRESS-GO-AHEAD\<close> on the terminal just opened.
\<close>

theorem handleWont_replies_witness:
  "handleWont ECHO opened =
     (None, opened\<lparr>p_socket := Some ([WriteDo ECHO, WriteDo SUPPRESS_GO_AHEAD,
        WriteWill SUPPRESS_GO_AHEAD, WriteWill NAWS] @ [WriteDo ECHO])\<rparr>)
   \<and> handleWont SUPPRESS_GO_AHEAD opened =
     (None, opened\<lparr>p_socket := Some ([WriteDo ECHO, WriteDo SUPPRESS_GO_AHEAD,
        WriteWill SUPPRESS_GO_AHEAD, WriteWill NAWS] @ [WriteDont SUPPRESS_GO_AHEAD])\<rparr>)"
  using handleWont_replies [OF p_socket_opened, of SUPPRESS_GO_AHEAD]
  by (simp add: option_codes)

text \<open>
  The wording of claim C4 that a flag for the remote's ECHO becomes false has nothing
  in the class to stand on: \<^verbatim>\<open>WONT ECHO\<close> leaves the terminal exactly as
  \<^verbatim>\<open>WILL ECHO\<close> does, so nothing in it tells a remote that echoes from one that does
  not, and the one flag the class keeps, for NAWS, and the dimensions are untouched.
\<close>

theorem handleWont_ECHO_records_nothing:
  "handleWont ECHO accepted = handleWill ECHO accepted
   \<and> p_serverNawsOk (snd (handleWont ECHO accepted)) = p_serverNawsOk accepted
   \<and> p_dimensions (snd (handleWont ECHO accepted)) = p_dimensions accepted"
  by (simp add: handleWont_def handleWill_def socket_do_def socket_def accepted_eq)

subsection \<open>Subnegotiation\<close>

text \<open>
  Claim C5. A completed subnegotiation block for TERMINAL-TYPE whose first payload byte
  is SEND (1) is answered, on an open connection, with a TERMINAL-TYPE block holding IS
  (0) followed by the string "XTERM"; one for NEW-ENVIRON whose first payload byte is
  SEND with a NEW-ENVIRON block holding only IS. For any other option code, an empty
  payload or another first byte, nothing is written and nothing is thrown, whatever the
  state of the terminal.
\<close>

theorem handleSubnegotiation_replies:
  "(p_socket s = Some sock \<longrightarrow>
      handleSubnegotiation TERMINAL_TYPE (1 # rest) s =
        (None, s\<lparr>p_socket := Some (sock @ [WriteSub TERMINAL_TYPE (0 # map of_char ''XTERM'')])\<rparr>)
    \<and> handleSubnegotiation NEW_ENVIRON (1 # rest) s =
        (None, s\<lparr>p_socket := Some (sock @ [WriteSub NEW_ENVIRON [0]])\<rparr>))
   \<and> ((option \<noteq> TERMINAL_TYPE \<and> option \<noteq> NEW_ENVIRON) \<or> buffer = []
        \<or> (\<exists>b bs. buffer = b # bs \<and> b \<noteq> 1)
        \<longrightarrow> handleSubnegotiation option buffer s = (None, s))"
proof (intro conjI impI)
  assume op: "p_socket s = Some sock"
  show "handleSubnegotiation TERMINAL_TYPE (1 # rest) s =
        (None, s\<lparr>p_socket := Some (sock @ [WriteSub TERMINAL_TYPE (0 # map of_char ''XTERM'')])\<rparr>)"
    using op by (simp add: handleSubnegotiation_def first_is_def SEND_def sendTerminalType_def
        writeSub_def IS_def socket_do_open)
  show "handleSubnegotiation NEW_ENVIRON (1 # rest) s =
        (None, s\<lparr>p_socket := Some (sock @ [WriteSub NEW_ENVIRON [0]])\<rparr>)"
    using op by (simp add: handleSubnegotiation_def first_is_def SEND_def sendEnvironment_def
        writeSub_def IS_def socket_do_open option_codes)
next
  assume "(option \<noteq> TERMINAL_TYPE \<and> option \<noteq> NEW_ENVIRON) \<or> buffer = []
        \<or> (\<exists>b bs. buffer = b # bs \<and> b \<noteq> 1)"
  then consider (other) "option \<noteq> TERMINAL_TYPE" "option \<noteq> NEW_ENVIRON"
    | (empty) "buffer = []"
    | (byte) b bs where "buffer = b # bs" "b \<noteq> 1"
    by blast
  then show "handleSubnegotiation option buffer s = (None, s)"
  proof cases
    case other
    then show ?thesis by (simp add: handleSubnegotiation_def)
  next
    case empty
    then show ?thesis by (simp add: handleSubnegotiation_def first_is_def)
  next
    case byte
    then have "unat b \<noteq> 1"
      by (metis unat_1 word_unat_eq_iff)
    then show ?thesis using byte by (simp add: handleSubnegotiation_def first_is_def SEND_def)
  qed
qed

text \<open>
  On the terminal just opened: the two replies, with the bytes of "XTERM" written out,
  and three blocks that are ignored.
\<close>

theorem handleSubnegotiation_replies_witness:
  "handleSubnegotiation TERMINAL_TYPE [1] opened =
     (None, opened\<lparr>p_socket := Some ([WriteDo ECHO, WriteDo SUPPRESS_GO_AHEAD,
        WriteWill SUPPRESS_GO_AHEAD, WriteWill NAWS] @
        [WriteSub TERMINAL_TYPE [0, 88, 84, 69, 82, 77]])\<rparr>)
   \<and> handleSubnegotiation NEW_ENVIRON [1] opened =
     (None, opened\<lparr>p_socket := Some ([WriteDo ECHO, WriteDo SUPPRESS_GO_AHEAD,
        WriteWill SUPPRESS_GO_AHEAD, WriteWill NAWS] @ [WriteSub NEW_ENVIRON [0]])\<rparr>)
   \<and> handleSubnegotiation NAWS [1] opened = (None, opened)
   \<and> handleSubnegotiation TERMINAL_TYPE [] opened = (None, opened)
   \<and> handleSubnegotiation TERMINAL_TYPE [0] opened = (None, opened)"
  using handleSubnegotiation_replies [of opened _ "[]" NAWS "[1]"]
    handleSubnegotiation_replies [of opened _ "[]" TERMINAL_TYPE "[]"]
    handleSubnegotiation_replies [of opened _ "[]" TERMINAL_TYPE "[0]"]
  by (simp add: p_socket_opened option_codes)

subsection \<open>Input\<close>

text \<open>
  Claim C6. On an open connection, submitting the string that is exactly a carriage
  return writes carriage return, line feed to the socket (the bytes 13, 10 on the
  wire); any other string, also one that contains a carriage return among other
  characters, is written as it is.
\<close>

theorem handleInput_translates:
  assumes "p_socket s = Some sock"
  shows "handleInput [CHR 0x0D] s =
      (None, s\<lparr>p_socket := Some (sock @ [Write [CHR 0x0D, CHR 0x0A]])\<rparr>)
    \<and> (data \<noteq> [CHR 0x0D] \<longrightarrow>
          handleInput data s = (None, s\<lparr>p_socket := Some (sock @ [Write data])\<rparr>))
    \<and> wire [Write [CHR 0x0D, CHR 0x0A]] = [13, 10]"
proof (intro conjI impI)
  show "handleInput [CHR 0x0D] s =
      (None, s\<lparr>p_socket := Some (sock @ [Write [CHR 0x0D, CHR 0x0A]])\<rparr>)"
    using assms by (simp add: handleInput_def translateInput_def socket_do_open)
next
  assume "data \<noteq> [CHR 0x0D]"
  then have "translateInput data = data"
    by (simp add: translateInput_def)
  then show "handleInput data s = (None, s\<lparr>p_socket := Some (sock @ [Write data])\<rparr>)"
    using assms by (simp add: handleInput_def socket_do_open)
next
  show "wire [Write [CHR 0x0D, CHR 0x0A]] = [13, 10]"
    by (simp add: wire_def IAC_def)
qed

text \<open>A lone carriage return, and \<^verbatim>\<open>ls\<close> followed by one, on the terminal just opened.\<close>

theorem handleInput_translates_witness:
  "handleInput [CHR 0x0D] opened =
     (None, opened\<lparr>p_socket := Some ([WriteDo ECHO, WriteDo SUPPRESS_GO_AHEAD,
        WriteWill SUPPRESS_GO_AHEAD, WriteWill NAWS] @ [Write [CHR 0x0D, CHR 0x0A]])\<rparr>)
   \<and> handleInput [CHR ''l'', CHR ''s'', CHR 0x0D] opened =
     (None, opened\<lparr>p_socket := Some ([WriteDo ECHO, WriteDo SUPPRESS_GO_AHEAD,
        WriteWill SUPPRESS_GO_AHEAD, WriteWill NAWS] @ [Write [CHR ''l'', CHR ''s'', CHR 0x0D]])\<rparr>)"
  using handleInput_translates [OF p_socket_opened, of "[CHR ''l'', CHR ''s'', CHR 0x0D]"]
  by simp

text \<open>
  Claim C9. A call of \<open>handleInput\<close> on a terminal whose connection has not been opened
  throws \<^verbatim>\<open>Error('Terminal not ready')\<close>: the \<open>socket\<close> getter throws before anything is
  written, and the terminal is left as it was.
\<close>

theorem handleInput_before_open:
  assumes "p_socket s = None"
  shows "handleInput data s = (Some TerminalNotReady, s)"
  using assms by (simp add: handleInput_def socket_do_closed)

text \<open>The terminal as the constructor leaves it has no socket.\<close>

theorem handleInput_before_open_witness:
  "p_socket constructor = None
   \<and> handleInput ''ls'' constructor = (Some TerminalNotReady, constructor)"
proof -
  have closed: "p_socket constructor = None"
    by (simp add: constructor_def)
  from handleInput_before_open [OF closed, of "''ls''"] closed show ?thesis
    by simp
qed

subsection \<open>Window size\<close>

text \<open>
  Claim C7. On an open connection that has accepted NAWS, reporting twice in a row a
  size whose columns and rows both fit the signed 16-bit range writes two identical
  NAWS subnegotiations, one per report: nothing stored suppresses the second.
\<close>

theorem same_size_twice:
  assumes "p_serverNawsOk s" and "p_socket s = Some sock"
    and "fits_int16 (columns d)" and "fits_int16 (rows d)"
  shows "setDimensions d s =
      (None, s\<lparr>p_dimensions := Some d,
         p_socket := Some (sock @ [WriteSub NAWS (naws_payload d)])\<rparr>)
    \<and> setDimensions d (snd (setDimensions d s)) =
      (None, s\<lparr>p_dimensions := Some d,
         p_socket := Some (sock @ [WriteSub NAWS (naws_payload d), WriteSub NAWS (naws_payload d)])\<rparr>)"
  using assms by (simp add: setDimensions_eq)

text \<open>
  The size 80 by 24, reported twice to the terminal that has just sent it.
\<close>

theorem same_size_twice_witness:
  "setDimensions \<lparr>columns = 80, rows = 24\<rparr>
       (snd (setDimensions \<lparr>columns = 80, rows = 24\<rparr> accepted)) =
     (None, accepted\<lparr>p_dimensions := Some \<lparr>columns = 80, rows = 24\<rparr>,
        p_socket := Some ([WriteDo ECHO, WriteDo SUPPRESS_GO_AHEAD, WriteWill SUPPRESS_GO_AHEAD,
          WriteWill NAWS, WriteWill NAWS, WriteSub NAWS [0, 80, 0, 24]] @
          [WriteSub NAWS [0, 80, 0, 24], WriteSub NAWS [0, 80, 0, 24]])\<rparr>)"
proof -
  have ok: "p_serverNawsOk accepted"
    by (simp add: accepted_eq)
  have fits: "fits_int16 (columns \<lparr>columns = 80, rows = 24\<rparr>)"
      "fits_int16 (rows \<lparr>columns = 80, rows = 24\<rparr>)"
    by (simp_all add: fits_int16_def)
  note twice = same_size_twice [OF ok p_socket_accepted fits]
  from twice [THEN conjunct1] twice [THEN conjunct2] show ?thesis
    by (simp add: naws_payload_80_24)
qed

text \<open>
  The wording of claim C7 for every terminal size fails for 40000 columns: on the
  terminal that has accepted NAWS both reports throw a \<^verbatim>\<open>RangeError\<close>, and the socket
  receives no call.
\<close>

theorem oversized_report_sends_nothing:
  "setDimensions \<lparr>columns = 40000, rows = 24\<rparr> accepted =
     (Some RangeError, accepted\<lparr>p_dimensions := Some \<lparr>columns = 40000, rows = 24\<rparr>\<rparr>)
   \<and> setDimensions \<lparr>columns = 40000, rows = 24\<rparr>
       (snd (setDimensions \<lparr>columns = 40000, rows = 24\<rparr> accepted)) =
     (Some RangeError, accepted\<lparr>p_dimensions := Some \<lparr>columns = 40000, rows = 24\<rparr>\<rparr>)
   \<and> p_socket (accepted\<lparr>p_dimensions := Some \<lparr>columns = 40000, rows = 24\<rparr>\<rparr>) = p_socket accepted"
  by (simp add: setDimensions_eq accepted_eq fits_int16_def)

text \<open>
  Claim C8. While NAWS is not accepted, a reported size is stored in place of the
  previous one, nothing is written and nothing is thrown. When the peer then sends
  \<^verbatim>\<open>DO NAWS\<close> on an open connection and the stored size fits the signed 16-bit range,
  \<^verbatim>\<open>WILL NAWS\<close> is followed by one NAWS subnegotiation whose four bytes read back as
  the columns and rows stored last.
\<close>

theorem stored_size_sent_on_accept:
  assumes "\<not> p_serverNawsOk s"
  shows "setDimensions d s = (None, s\<lparr>p_dimensions := Some d\<rparr>)
    \<and> setDimensions d (snd (setDimensions d0 s)) = (None, s\<lparr>p_dimensions := Some d\<rparr>)
    \<and> (p_socket s = Some sock \<and> fits_int16 (columns d) \<and> fits_int16 (rows d) \<longrightarrow>
          handleDo NAWS (snd (setDimensions d s)) =
            (None, s\<lparr>p_dimensions := Some d, p_serverNawsOk := True,
               p_socket := Some (sock @ [WriteWill NAWS, WriteSub NAWS (naws_payload d)])\<rparr>)
          \<and> (\<exists>c1 c0 r1 r0. naws_payload d = [c1, c0, r1, r0]
                \<and> signed16 c1 c0 = columns d \<and> signed16 r1 r0 = rows d))"
proof (intro conjI impI)
  show stored: "setDimensions d s = (None, s\<lparr>p_dimensions := Some d\<rparr>)" for d
    using assms by (simp add: setDimensions_eq)
  show "setDimensions d (snd (setDimensions d0 s)) = (None, s\<lparr>p_dimensions := Some d\<rparr>)"
    using assms by (simp add: setDimensions_eq)
  assume ok: "p_socket s = Some sock \<and> fits_int16 (columns d) \<and> fits_int16 (rows d)"
  then show "handleDo NAWS (snd (setDimensions d s)) =
            (None, s\<lparr>p_dimensions := Some d, p_serverNawsOk := True,
               p_socket := Some (sock @ [WriteWill NAWS, WriteSub NAWS (naws_payload d)])\<rparr>)"
    using assms by (simp add: stored handleDo_NAWS_eq)
  from ok show "\<exists>c1 c0 r1 r0. naws_payload d = [c1, c0, r1, r0]
                \<and> signed16 c1 c0 = columns d \<and> signed16 r1 r0 = rows d"
    by (simp add: naws_payload_def int16BE_def signed16_int16BE)
qed

text \<open>
  The size 132 by 43, reported to the terminal just opened with 80 by 24.
\<close>

theorem stored_size_sent_on_accept_witness:
  "setDimensions \<lparr>columns = 132, rows = 43\<rparr> opened =
     (None, opened\<lparr>p_dimensions := Some \<lparr>columns = 132, rows = 43\<rparr>\<rparr>)
   \<and> handleDo NAWS (snd (setDimensions \<lparr>columns = 132, rows = 43\<rparr> opened)) =
     (None, opened\<lparr>p_dimensions := Some \<lparr>columns = 132, rows = 43\<rparr>, p_serverNawsOk := True,
        p_socket := Some ([WriteDo ECHO, WriteDo SUPPRESS_GO_AHEAD, WriteWill SUPPRESS_GO_AHEAD,
          WriteWill NAWS] @ [WriteWill NAWS, WriteSub NAWS [0, 132, 0, 43]])\<rparr>)"
proof -
  have no: "\<not> p_serverNawsOk opened"
    by (simp add: opened_eq)
  have payload: "naws_payload \<lparr>columns = 132, rows = 43\<rparr> = [0, 132, 0, 43]"
    by (simp add: naws_payload_def int16BE_def)
  note stored = stored_size_sent_on_accept [OF no, of "\<lparr>columns = 132, rows = 43\<rparr>"
      "\<lparr>columns = 132, rows = 43\<rparr>"
      "[WriteDo ECHO, WriteDo SUPPRESS_GO_AHEAD, WriteWill SUPPRESS_GO_AHEAD, WriteWill NAWS]"]
  from stored [THEN conjunct1] stored [THEN conjunct2, THEN conjunct2] show ?thesis
    by (simp add: p_socket_opened fits_int16_def payload)
qed

text \<open>
  The wording of claim C8 that the stored size is the one sent fails for 40000
  columns: reported to the terminal just opened, the size is stored, and the
  \<^verbatim>\<open>DO NAWS\<close> that follows is answered with \<^verbatim>\<open>WILL NAWS\<close> and a \<^verbatim>\<open>RangeError\<close>,
  with no subnegotiation.
\<close>

theorem oversized_stored_size_not_sent:
  "setDimensions \<lparr>columns = 40000, rows = 24\<rparr> opened =
     (None, opened\<lparr>p_dimensions := Some \<lparr>columns = 40000, rows = 24\<rparr>\<rparr>)
   \<and> handleDo NAWS (snd (setDimensions \<lparr>columns = 40000, rows = 24\<rparr> opened)) =
     (Some RangeError,
      opened\<lparr>p_dimensions := Some \<lparr>columns = 40000, rows = 24\<rparr>, p_serverNawsOk := True,
        p_socket := Some ([WriteDo ECHO, WriteDo SUPPRESS_GO_AHEAD, WriteWill SUPPRESS_GO_AHEAD,
          WriteWill NAWS] @ [WriteWill NAWS])\<rparr>)"
  by (simp add: setDimensions_eq handleDo_NAWS_eq opened_eq fits_int16_def)

text \<open>
  Claim C10. When NAWS is accepted and the columns or the rows of the reported size lie
  outside the signed 16-bit range, \<open>setDimensions\<close> throws a \<^verbatim>\<open>RangeError\<close> and the
  socket receives no call, with or without a connection; the size has replaced the
  stored dimensions all the same.
\<close>

theorem setDimensions_out_of_range:
  assumes "p_serverNawsOk s"
    and "columns d < - 32768 \<or> 32767 < columns d \<or> rows d < - 32768 \<or> 32767 < rows d"
  shows "setDimensions d s = (Some RangeError, s\<lparr>p_dimensions := Some d\<rparr>)"
proof -
  from assms(2) have "\<not> (fits_int16 (columns d) \<and> fits_int16 (rows d))"
    unfolding fits_int16_def by linarith
  with assms(1) show ?thesis
    by (simp add: setDimensions_eq)
qed

text \<open>
  70000 columns, on the terminal that has accepted NAWS.
\<close>

theorem setDimensions_out_of_range_witness:
  "setDimensions \<lparr>columns = 70000, rows = 24\<rparr> accepted =
     (Some RangeError, accepted\<lparr>p_dimensions := Some \<lparr>columns = 70000, rows = 24\<rparr>\<rparr>)
   \<and> p_socket (snd (setDimensions \<lparr>columns = 70000, rows = 24\<rparr> accepted)) = p_socket accepted
   \<and> p_dimensions (snd (setDimensions \<lparr>columns = 70000, rows = 24\<rparr> accepted)) =
       Some \<lparr>columns = 70000, rows = 24\<rparr>"
  using setDimensions_out_of_range [of accepted "\<lparr>columns = 70000, rows = 24\<rparr>"]
  by (simp add: accepted_eq)

end
